theory Spec2Isabelle
  imports Main "HOL-Library.Word"
begin

unbundle bit_operations_syntax

section \<open>Bytes, Python values and the struct formats of the socket manager\<close>

text \<open>
  This theory embeds \<^verbatim>\<open>main/control_modules/socket_manager.py\<close> (class
  \<^verbatim>\<open>MasiSocketManager\<close>). A \<^verbatim>\<open>bytes\<close> object is a list of 8-bit words.
  A Python float is an IEEE-754 double; \<^verbatim>\<open>struct\<close> copies its 64 bits unchanged, so a
  float is modelled by its bit pattern. The two conversions that do floating-point work
  (\<^verbatim>\<open>float(int)\<close>, \<^verbatim>\<open>float(str)\<close>) belong to the Python runtime and are taken as
  a parameter of the model.
\<close>

type_synonym byte = "8 word"
type_synonym bytes = "byte list"
type_synonym addr = "string \<times> int"

datatype pyval = PInt int | PFloat "64 word" | PStr string

datatype error =
  StructError | TypeError | ValueError | OverflowError | AttributeError | OSError
  | ZeroDivisionError

datatype 'a outcome = Returned 'a | Raised error

record pyfloat =
  float_of_int :: "int \<Rightarrow> 64 word option"  \<comment> \<open>\<open>None\<close>: OverflowError\<close>
  float_of_str :: "string \<Rightarrow> 64 word option"  \<comment> \<open>\<open>None\<close>: ValueError\<close>

text \<open>The format characters the constructor's defaults name: \<^verbatim>\<open>'b'\<close> and \<^verbatim>\<open>'d'\<close>.\<close>

datatype format = Fmt_b | Fmt_d

definition int_format :: format where
  "int_format = Fmt_b"

definition double_format :: format where
  "double_format = Fmt_d"

fun calcsize :: "format \<Rightarrow> nat" where
  "calcsize Fmt_b = 1"
| "calcsize Fmt_d = 8"

definition checksum_format_size :: nat where
  "checksum_format_size = 1"

text \<open>Little-endian byte strings (\<^verbatim>\<open>endian_specifier = '<'\<close>).\<close>

definition le_bytes :: "nat \<Rightarrow> 'a::len word \<Rightarrow> bytes" where
  "le_bytes n w = map (\<lambda>k. ucast (drop_bit (8 * k) w)) [0..<n]"

definition from_le_bytes :: "bytes \<Rightarrow> 'a::len word" where
  "from_le_bytes bs = word_of_int (horner_sum uint (2 ^ 8) bs)"

text \<open>
  \<^verbatim>\<open>struct.pack('<' + fmt, v)\<close> for one value; \<open>None\<close> is \<^verbatim>\<open>struct.error\<close>
  (\<^verbatim>\<open>'b'\<close> wants an integer in \<open>-128..127\<close>; \<^verbatim>\<open>'d'\<close> wants something
  \<^verbatim>\<open>float()\<close> accepts, and an integer too large for a double is reported as
  \<^verbatim>\<open>struct.error\<close> as well).
\<close>

fun pack_value :: "pyfloat \<Rightarrow> format \<Rightarrow> pyval \<Rightarrow> bytes option" where
  "pack_value fl Fmt_b (PInt i) =
     (if - 128 \<le> i \<and> i \<le> 127 then Some [word_of_int i] else None)"
| "pack_value fl Fmt_b (PFloat w) = None"
| "pack_value fl Fmt_b (PStr s) = None"
| "pack_value fl Fmt_d (PInt i) = map_option (le_bytes 8) (float_of_int fl i)"
| "pack_value fl Fmt_d (PFloat w) = Some (le_bytes 8 w)"
| "pack_value fl Fmt_d (PStr s) = None"

text \<open>\<^verbatim>\<open>struct.pack('<' + fmt * len(data), *data)\<close>.\<close>

definition struct_pack :: "pyfloat \<Rightarrow> format \<Rightarrow> pyval list \<Rightarrow> bytes option" where
  "struct_pack fl fmt data = map_option concat (those (map (pack_value fl fmt) data))"

text \<open>\<^verbatim>\<open>struct.unpack('<' + fmt, chunk)[0]\<close>; \<open>None\<close> is \<^verbatim>\<open>struct.error\<close>.\<close>

fun unpack_value :: "format \<Rightarrow> bytes \<Rightarrow> pyval option" where
  "unpack_value Fmt_b chunk =
     (case chunk of [b] \<Rightarrow> Some (PInt (sint b)) | _ \<Rightarrow> None)"
| "unpack_value Fmt_d chunk =
     (if length chunk = 8 then Some (PFloat (from_le_bytes chunk)) else None)"

text \<open>\<^verbatim>\<open>struct.unpack('<B', chunk)\<close>: the checksum byte.\<close>

fun unpack_checksum :: "bytes \<Rightarrow> byte option" where
  "unpack_checksum [b] = Some b"
| "unpack_checksum _ = None"

text \<open>\<^verbatim>\<open>_compute_checksum\<close>: the running exclusive-or of every byte, from 0.\<close>

definition compute_checksum :: "bytes \<Rightarrow> byte" where
  "compute_checksum packed_data = fold (\<lambda>byte checksum. checksum XOR byte) packed_data 0"

text \<open>\<^verbatim>\<open>_add_checksum\<close>.\<close>

definition add_checksum :: "bytes \<Rightarrow> bytes" where
  "add_checksum packed_data = packed_data @ [compute_checksum packed_data]"

text \<open>\<^verbatim>\<open>range(0, n, step)\<close> for a positive step.\<close>

definition py_range :: "nat \<Rightarrow> nat \<Rightarrow> nat list" where
  "py_range n step = map (\<lambda>k. k * step) [0..<(n + step - 1) div step]"

text \<open>Slices: \<^verbatim>\<open>b[i:i+n]\<close>, \<^verbatim>\<open>b[-n:]\<close> and \<^verbatim>\<open>b[:-n]\<close> (for \<open>n > 0\<close>).\<close>

definition slice :: "'a list \<Rightarrow> nat \<Rightarrow> nat \<Rightarrow> 'a list" where
  "slice b i n = take n (drop i b)"

definition last_n :: "'a list \<Rightarrow> nat \<Rightarrow> 'a list" where
  "last_n b n = drop (length b - n) b"

definition but_last_n :: "'a list \<Rightarrow> nat \<Rightarrow> 'a list" where
  "but_last_n b n = take (length b - n) b"

section \<open>The manager's state\<close>

text \<open>
  The fields of \<^verbatim>\<open>MasiSocketManager\<close> that the modelled methods read or write, with
  \<open>None\<close> for Python's \<^verbatim>\<open>None\<close>. Sockets are objects: \<open>sockets\<close> is the store
  of every socket created so far and the socket fields hold indices into it (the client
  role aliases \<open>local_socket\<close> and \<open>connected_socket\<close>). \<open>inbox\<close> lists what the
  successive stream \<^verbatim>\<open>recv\<close> calls will return, \<open>outbox\<close> what was sent,
  \<open>log_file\<close> the file at \<^verbatim>\<open>filepath\<close> as the batches appended to it, one
  list of records per \<^verbatim>\<open>writelines\<close> call (its content is their concatenation).
\<close>

datatype sock_kind = SOCK_STREAM | SOCK_DGRAM

record sock =
  kind :: sock_kind
  bound_addr :: "addr option"
  peer_addr :: "addr option"
  listening :: bool
  closed :: bool

record manager =
  socket_type :: "string option"
  network_protocol :: "string option"
  local_id_number :: "int option"
  local_num_inputs :: "int option"
  local_num_outputs :: "int option"
  local_socket :: "nat option"
  local_addr :: "addr option"
  local_output_datatype :: "format option"
  local_datatype_size :: "nat option"
  recvd_id_number :: "int option"
  recvd_num_inputs :: "int option"
  recvd_num_outputs :: "int option"
  connected_socket :: "nat option"
  connected_addr :: "addr option"
  connected_output_datatype :: "format option"
  connected_datatype_size :: "nat option"
  buffer_size :: nat
  data_buffer :: "(int \<times> pyval list) list"
  send_bytes :: "int option"
  recv_bytes :: "int option"
  latest_recvd :: "bytes option"
  sockets :: "sock list"
  inbox :: "bytes list"
  outbox :: "(bytes \<times> addr option) list"
  log_file :: "bytes list list"

text \<open>\<^verbatim>\<open>__init__\<close> with its default arguments, no socket yet and an empty log.\<close>

definition init :: manager where
  "init = \<lparr> socket_type = None, network_protocol = None, local_id_number = None,
     local_num_inputs = None, local_num_outputs = None, local_socket = None,
     local_addr = None, local_output_datatype = None, local_datatype_size = None,
     recvd_id_number = None, recvd_num_inputs = None, recvd_num_outputs = None,
     connected_socket = None, connected_addr = None, connected_output_datatype = None,
     connected_datatype_size = None, buffer_size = 100, data_buffer = [],
     send_bytes = None, recv_bytes = None, latest_recvd = None, sockets = [],
     inbox = [], outbox = [], log_file = [] \<rparr>"

section \<open>Decoding the cached frame\<close>

text \<open>
  \<^verbatim>\<open>get_latest_received\<close>. Every exception inside the \<^verbatim>\<open>try\<close> is caught and gives
  \<^verbatim>\<open>None\<close>: \<^verbatim>\<open>struct.error\<close> from either unpack, and the \<^verbatim>\<open>TypeError\<close> of
  \<^verbatim>\<open>expected_length % None\<close> and \<^verbatim>\<open>'<' + None\<close> when no handshake has set the
  peer's datatype. The list comprehension is \<open>decode_chunks\<close>.
\<close>

definition decode_chunks :: "format option \<Rightarrow> nat \<Rightarrow> bytes \<Rightarrow> nat \<Rightarrow> pyval list option" where
  "decode_chunks fmt sz full_data expected_length =
     those (map (\<lambda>i. case fmt of None \<Rightarrow> None
                      | Some f \<Rightarrow> unpack_value f (slice full_data i sz))
                (py_range expected_length sz))"

definition get_latest_received :: "manager \<Rightarrow> pyval list option \<times> manager" where
  "get_latest_received m =
     (case latest_recvd m of
        None \<Rightarrow> (None, m)
      | Some full_data \<Rightarrow>
          (case unpack_checksum (last_n full_data checksum_format_size) of
             None \<Rightarrow> (None, m)
           | Some received_checksum \<Rightarrow>
               (let computed_checksum =
                      compute_checksum (but_last_n full_data checksum_format_size)
                in if received_checksum \<noteq> computed_checksum then (None, m)
                   else
                     (let expected_length = length full_data - checksum_format_size
                      in case connected_datatype_size m of
                           None \<Rightarrow> (None, m)
                         | Some sz \<Rightarrow>
                             if sz = 0 then (None, m)
                             else if expected_length mod sz \<noteq> 0 then (None, m)
                             else
                               (case decode_chunks (connected_output_datatype m) sz
                                       full_data expected_length of
                                  None \<Rightarrow> (None, m)
                                | Some decoded_values \<Rightarrow>
                                    (Some decoded_values, m\<lparr>latest_recvd := None\<rparr>))))))"

section \<open>Receiving\<close>

text \<open>
  What one socket receive call gives back: the bytes returned (with the sender, which only
  \<^verbatim>\<open>recvfrom\<close> reports), or an exception.
\<close>

datatype recv_event = Delivered bytes addr | Recv_fails

text \<open>
  \<^verbatim>\<open>__receive_data\<close>. \<^verbatim>\<open>recv\<close> and \<^verbatim>\<open>recvfrom\<close> raise on a size that is
  \<^verbatim>\<open>None\<close> or negative; the function's own \<^verbatim>\<open>except\<close> turns every exception into
  \<^verbatim>\<open>None\<close>. In datagram mode the server records the sender before the length is
  looked at.
\<close>

definition receive_data :: "manager \<Rightarrow> recv_event \<Rightarrow> bytes option \<times> manager" where
  "receive_data m ev =
     (case recv_bytes m of
        None \<Rightarrow> (None, m)
      | Some n \<Rightarrow>
          if n < 0 then (None, m)
          else
            (case ev of
               Recv_fails \<Rightarrow> (None, m)
             | Delivered full_data sender \<Rightarrow>
                 (let m' = (if network_protocol m = Some ''tcp'' then m
                            else if socket_type m = Some ''server''
                                 then m\<lparr>connected_addr := Some sender\<rparr>
                                 else m)
                  in if full_data = [] \<or> int (length full_data) \<noteq> n then (None, m')
                     else (Some full_data, m'))))"

text \<open>One iteration of \<^verbatim>\<open>__continuous_data_receiver\<close>.\<close>

definition continuous_data_receiver_step :: "manager \<Rightarrow> recv_event \<Rightarrow> manager" where
  "continuous_data_receiver_step m ev =
     (case receive_data m ev of
        (None, m') \<Rightarrow> m'
      | (Some data, m') \<Rightarrow> if data \<noteq> [] then m'\<lparr>latest_recvd := Some data\<rparr> else m')"

section \<open>Sending\<close>

text \<open>
  A method call on a socket field: \<^verbatim>\<open>None\<close> has no such method (AttributeError) and
  a closed socket refuses the call (OSError).
\<close>

definition sock_usable :: "manager \<Rightarrow> nat option \<Rightarrow> error option" where
  "sock_usable m h =
     (case h of
        None \<Rightarrow> Some AttributeError
      | Some s \<Rightarrow> if s < length (sockets m) \<and> \<not> closed (sockets m ! s) then None
                  else Some OSError)"

definition sock_send :: "manager \<Rightarrow> nat option \<Rightarrow> bytes \<Rightarrow> addr option \<Rightarrow> unit outcome \<times> manager" where
  "sock_send m h data dest =
     (case sock_usable m h of
        Some e \<Rightarrow> (Raised e, m)
      | None \<Rightarrow> (Returned (), m\<lparr>outbox := outbox m @ [(data, dest)]\<rparr>))"

text \<open>
  \<^verbatim>\<open>recv(n)\<close> on the stream: the next chunk of \<open>inbox\<close>, at most \<open>n\<close> bytes of it;
  the empty byte string once the peer has nothing more to send.
\<close>

definition sock_recv :: "manager \<Rightarrow> nat option \<Rightarrow> nat \<Rightarrow> bytes outcome \<times> manager" where
  "sock_recv m h n =
     (case sock_usable m h of
        Some e \<Rightarrow> (Raised e, m)
      | None \<Rightarrow>
          (case inbox m of
             [] \<Rightarrow> (Returned [], m)
           | c # cs \<Rightarrow>
               (Returned (take n c),
                m\<lparr>inbox := (if length c \<le> n then cs else drop n c # cs)\<rparr>)))"

text \<open>\<^verbatim>\<open>send_data\<close>.\<close>

definition send_data :: "pyfloat \<Rightarrow> manager \<Rightarrow> pyval list \<Rightarrow> bytes outcome \<times> manager" where
  "send_data fl m data =
     (case local_output_datatype m of
        None \<Rightarrow> (Raised TypeError, m)
      | Some fmt \<Rightarrow>
          (case struct_pack fl fmt data of
             None \<Rightarrow> (Raised StructError, m)
           | Some packed_data \<Rightarrow>
               (let final_data = add_checksum packed_data
                in if network_protocol m = Some ''tcp''
                   then (case sock_send m (connected_socket m) final_data None of
                           (Raised e, m') \<Rightarrow> (Raised e, m')
                         | (Returned u, m') \<Rightarrow> (Returned final_data, m'))
                   else (case connected_addr m of
                           None \<Rightarrow>
                             (case sock_usable m (local_socket m) of
                                Some e \<Rightarrow> (Raised e, m)
                              | None \<Rightarrow> (Raised TypeError, m))
                         | Some a \<Rightarrow>
                             (case sock_send m (local_socket m) final_data (Some a) of
                                (Raised e, m') \<Rightarrow> (Raised e, m')
                              | (Returned u, m') \<Rightarrow> (Returned final_data, m'))))))"

section \<open>The record buffer and the saver\<close>

text \<open>
  \<^verbatim>\<open>add_data_to_buffer\<close>, with the clock's microsecond timestamp as an argument. The
  result says whether the condition variable is notified.
\<close>

definition add_data_to_buffer :: "manager \<Rightarrow> int \<Rightarrow> pyval list \<Rightarrow> bool \<times> manager" where
  "add_data_to_buffer m microsecond_timestamp unpacked_data =
     (let timestamped_data = (microsecond_timestamp, unpacked_data);
          m' = m\<lparr>data_buffer := data_buffer m @ [timestamped_data]\<rparr>;
          ready_to_save = (length (data_buffer m') \<ge> buffer_size m')
      in (ready_to_save, m'))"

text \<open>\<^verbatim>\<open>float(d)\<close>, and the comprehension \<^verbatim>\<open>[float(d) for d in data[1]]\<close>.\<close>

fun py_float :: "pyfloat \<Rightarrow> pyval \<Rightarrow> error + 64 word" where
  "py_float fl (PInt i) =
     (case float_of_int fl i of None \<Rightarrow> Inl OverflowError | Some w \<Rightarrow> Inr w)"
| "py_float fl (PFloat w) = Inr w"
| "py_float fl (PStr s) =
     (case float_of_str fl s of None \<Rightarrow> Inl ValueError | Some w \<Rightarrow> Inr w)"

fun floats :: "pyfloat \<Rightarrow> pyval list \<Rightarrow> error + 64 word list" where
  "floats fl [] = Inr []"
| "floats fl (d # ds) =
     (case py_float fl d of
        Inl e \<Rightarrow> Inl e
      | Inr w \<Rightarrow> (case floats fl ds of Inl e \<Rightarrow> Inl e | Inr ws \<Rightarrow> Inr (w # ws)))"

text \<open>
  \<^verbatim>\<open>struct.pack('<' + 'd' + 'd' * len(sensor_values), timestamp, *sensor_values)\<close>:
  the integer timestamp is converted to a double by \<^verbatim>\<open>struct\<close>.
\<close>

definition pack_record :: "pyfloat \<Rightarrow> int \<Rightarrow> 64 word list \<Rightarrow> bytes option" where
  "pack_record fl timestamp sensor_values =
     (case float_of_int fl timestamp of
        None \<Rightarrow> None
      | Some t \<Rightarrow> Some (le_bytes 8 t @ concat (map (le_bytes 8) sensor_values)))"

text \<open>
  The \<^verbatim>\<open>while self.data_buffer\<close> loop of \<^verbatim>\<open>__save_buffer\<close>: the entries still queued
  and \<open>packed_data_list\<close> so far. A ValueError or a \<^verbatim>\<open>struct.error\<close> skips the entry;
  any other exception leaves the loop with the entry already popped.
\<close>

fun save_loop ::
  "pyfloat \<Rightarrow> (int \<times> pyval list) list \<Rightarrow> bytes list
     \<Rightarrow> bytes list outcome \<times> (int \<times> pyval list) list" where
  "save_loop fl [] packed_data_list = (Returned packed_data_list, [])"
| "save_loop fl (data # rest) packed_data_list =
     (case floats fl (snd data) of
        Inl e \<Rightarrow> if e = ValueError then save_loop fl rest packed_data_list
                 else (Raised e, rest)
      | Inr sensor_values \<Rightarrow>
          (case pack_record fl (fst data) sensor_values of
             None \<Rightarrow> save_loop fl rest packed_data_list
           | Some packed_data \<Rightarrow> save_loop fl rest (packed_data_list @ [packed_data])))"

text \<open>\<^verbatim>\<open>__save_buffer\<close>; \<open>open_ok\<close> says whether the log file can be opened.\<close>

definition save_buffer :: "pyfloat \<Rightarrow> manager \<Rightarrow> bool \<Rightarrow> unit outcome \<times> manager" where
  "save_buffer fl m open_ok =
     (case save_loop fl (data_buffer m) [] of
        (Raised e, rest) \<Rightarrow> (Raised e, m\<lparr>data_buffer := rest\<rparr>)
      | (Returned packed_data_list, rest) \<Rightarrow>
          (let m' = m\<lparr>data_buffer := rest\<rparr>
           in if open_ok
              then (Returned (), m'\<lparr>log_file := log_file m' @ [packed_data_list]\<rparr>)
              else (Raised OSError, m')))"

text \<open>
  One pass of the saver thread's outer loop, seen sequentially: it leaves when the running
  flag is off, stays in the wait while the queue is below \<open>buffer_size\<close>, and flushes
  otherwise.
\<close>

definition run_saving_thread_step ::
  "pyfloat \<Rightarrow> manager \<Rightarrow> bool \<Rightarrow> bool \<Rightarrow> unit outcome \<times> manager" where
  "run_saving_thread_step fl m saving_running open_ok =
     (if \<not> saving_running then (Returned (), m)
      else if length (data_buffer m) < buffer_size m \<and> saving_running then (Returned (), m)
      else save_buffer fl m open_ok)"

section \<open>Connection setup\<close>

text \<open>
  What the operating system answers during setup: whether \<^verbatim>\<open>connect\<close> and
  \<^verbatim>\<open>bind\<close> succeed, and the peer that \<^verbatim>\<open>accept\<close> returns (\<open>None\<close>: it raises).
\<close>

record setup_env =
  connect_ok :: bool
  bind_ok :: bool
  accept_peer :: "addr option"

definition new_sock :: "sock_kind \<Rightarrow> sock" where
  "new_sock k = \<lparr> kind = k, bound_addr = None, peer_addr = None, listening = False,
     closed = False \<rparr>"

text \<open>\<^verbatim>\<open>__setup_socket_client\<close>.\<close>

definition setup_socket_client ::
  "manager \<Rightarrow> setup_env \<Rightarrow> string \<Rightarrow> int \<Rightarrow> unit outcome \<times> manager" where
  "setup_socket_client m env a port =
     (if local_socket m = None then
        (let s = length (sockets m);
             m1 = m\<lparr>sockets := sockets m @ [new_sock SOCK_STREAM], local_socket := Some s\<rparr>
         in if \<not> connect_ok env then (Raised OSError, m1)
            else (Returned (),
                  m1\<lparr>sockets := (sockets m1)[s := (sockets m1 ! s)\<lparr>peer_addr := Some (a, port)\<rparr>],
                     socket_type := Some ''client'',
                     connected_addr := Some (a, port),
                     connected_socket := local_socket m1,
                     network_protocol := Some ''tcp''\<rparr>))
      else (Returned (), m))"

text \<open>\<^verbatim>\<open>__setup_socket_server\<close>.\<close>

definition setup_socket_server ::
  "manager \<Rightarrow> setup_env \<Rightarrow> string \<Rightarrow> int \<Rightarrow> unit outcome \<times> manager" where
  "setup_socket_server m env a port =
     (if local_socket m = None then
        (let s = length (sockets m);
             m1 = m\<lparr>sockets := sockets m @ [new_sock SOCK_STREAM], local_socket := Some s\<rparr>
         in if \<not> bind_ok env then (Raised OSError, m1)
            else
              (let m2 = m1\<lparr>sockets := (sockets m1)[s := (sockets m1 ! s)
                            \<lparr>bound_addr := Some (a, port), listening := True\<rparr>]\<rparr>
               in case accept_peer env of
                    None \<Rightarrow> (Raised OSError, m2)
                  | Some client \<Rightarrow>
                      (let c = length (sockets m2)
                       in (Returned (),
                           m2\<lparr>sockets := sockets m2 @
                                 [(new_sock SOCK_STREAM)
                                    \<lparr>bound_addr := Some (a, port), peer_addr := Some client\<rparr>],
                              connected_socket := Some c,
                              connected_addr := Some client,
                              socket_type := Some ''server'',
                              local_addr := Some (a, port),
                              network_protocol := Some ''tcp''\<rparr>))))
      else (Returned (), m))"

text \<open>\<^verbatim>\<open>setup_socket\<close>.\<close>

definition setup_socket ::
  "manager \<Rightarrow> setup_env \<Rightarrow> string \<Rightarrow> int \<Rightarrow> int \<Rightarrow> int \<Rightarrow> int \<Rightarrow> string
     \<Rightarrow> bool outcome \<times> manager" where
  "setup_socket m env a port identification_number inputs outputs socket_type' =
     (let m0 = m\<lparr>local_id_number := Some identification_number,
                  local_num_inputs := Some inputs,
                  local_num_outputs := Some outputs\<rparr>
      in if socket_type' = ''client'' then
           (case setup_socket_client m0 env a port of
              (Raised e, m1) \<Rightarrow> (Raised e, m1)
            | (Returned u, m1) \<Rightarrow> (Returned True, m1))
         else if socket_type' = ''server'' then
           (case setup_socket_server m0 env a port of
              (Raised e, m1) \<Rightarrow> (Raised e, m1)
            | (Returned u, m1) \<Rightarrow> (Returned True, m1))
         else (Returned False, m0))"

text \<open>The stream connections that are open: connected, unclosed stream sockets.\<close>

definition stream_connections :: "manager \<Rightarrow> sock list" where
  "stream_connections m =
     filter (\<lambda>s. kind s = SOCK_STREAM \<and> \<not> closed s \<and> peer_addr s \<noteq> None) (sockets m)"

section \<open>Switching to datagrams\<close>

definition close_sock :: "manager \<Rightarrow> nat option \<Rightarrow> manager" where
  "close_sock m h =
     (case h of
        None \<Rightarrow> m
      | Some s \<Rightarrow> m\<lparr>sockets := (sockets m)[s := (sockets m ! s)\<lparr>closed := True\<rparr>]\<rparr>)"

text \<open>
  \<^verbatim>\<open>tcp_to_udp\<close>; \<open>bind_ok'\<close> says whether the datagram \<^verbatim>\<open>bind\<close> succeeds
  (\<^verbatim>\<open>bind(None)\<close> is a TypeError).
\<close>

definition tcp_to_udp :: "manager \<Rightarrow> bool \<Rightarrow> bool outcome \<times> manager" where
  "tcp_to_udp m bind_ok' =
     (let tcp_addr = (if socket_type m = Some ''client'' then connected_addr m
                      else local_addr m);
          m1 = close_sock m (connected_socket m);
          m2 = close_sock m1 (local_socket m1);
          s = length (sockets m2);
          m3 = m2\<lparr>sockets := sockets m2 @ [new_sock SOCK_DGRAM], local_socket := Some s\<rparr>
      in if socket_type m3 = Some ''server'' then
           (case tcp_addr of
              None \<Rightarrow> (Raised TypeError, m3)
            | Some a \<Rightarrow>
                if \<not> bind_ok' then (Raised OSError, m3)
                else (Returned True,
                      m3\<lparr>sockets := (sockets m3)[s := (sockets m3 ! s)\<lparr>bound_addr := Some a\<rparr>],
                         network_protocol := Some ''udp''\<rparr>))
         else if socket_type m3 = Some ''client'' then
           (Returned True, m3\<lparr>connected_addr := tcp_addr, network_protocol := Some ''udp''\<rparr>)
         else (Returned True, m3\<lparr>network_protocol := Some ''udp''\<rparr>))"

section \<open>The handshake\<close>

text \<open>The module's two registries.\<close>

definition id_numbers :: "int \<rightharpoonup> string" where
  "id_numbers = [0 \<mapsto> ''Excavator'', 1 \<mapsto> ''Mevea'', 2 \<mapsto> ''Motion Platform'',
     3 \<mapsto> ''Digicenter'']"

definition datatype_encoding :: "string \<rightharpoonup> int" where
  "datatype_encoding = [''int'' \<mapsto> 0, ''double'' \<mapsto> 1]"

text \<open>\<^verbatim>\<open>d.get(key, default)\<close>.\<close>

definition dict_get :: "('k \<rightharpoonup> 'v) \<Rightarrow> 'k \<Rightarrow> 'v \<Rightarrow> 'v" where
  "dict_get d k dflt = (case d k of None \<Rightarrow> dflt | Some v \<Rightarrow> v)"

text \<open>
  The handshake integers (\<^verbatim>\<open>handshake_format = 'i'\<close>, four bytes, signed). Packing
  raises \<^verbatim>\<open>struct.error\<close> for \<^verbatim>\<open>None\<close> and for a value outside 32 bits; unpacking
  raises it for a chunk of the wrong length. The one unpack the source writes without the
  endian specifier uses the machine's byte order, little-endian on the target.
\<close>

definition pack_i :: "int option \<Rightarrow> bytes option" where
  "pack_i v =
     (case v of
        None \<Rightarrow> None
      | Some i \<Rightarrow> if - (2 ^ 31) \<le> i \<and> i < 2 ^ 31
                  then Some (le_bytes 4 (word_of_int i :: 32 word)) else None)"

definition pack_ints :: "int option list \<Rightarrow> bytes option" where
  "pack_ints vs = map_option concat (those (map pack_i vs))"

definition unpack_i :: "bytes \<Rightarrow> int option" where
  "unpack_i chunk =
     (if length chunk = 4 then Some (sint (from_le_bytes chunk :: 32 word)) else None)"

definition unpack_iii :: "bytes \<Rightarrow> (int \<times> int \<times> int) option" where
  "unpack_iii chunk =
     (if length chunk = 12
      then (case (unpack_i (slice chunk 0 4), unpack_i (slice chunk 4 4),
                  unpack_i (slice chunk 8 4)) of
              (Some a, Some b, Some c) \<Rightarrow> Some (a, b, c)
            | _ \<Rightarrow> None)
      else None)"

text \<open>
  \<^verbatim>\<open>_prepare_extra_args\<close>; \<open>kwargs\<close> is the keyword dictionary in insertion order.
\<close>

definition prepare_extra_args :: "(string \<times> int) list \<Rightarrow> nat \<Rightarrow> int list" where
  "prepare_extra_args kwargs num_extra_args =
     (let extra_args_to_send = take num_extra_args (map snd kwargs)
      in extra_args_to_send @ replicate (num_extra_args - length extra_args_to_send) 0)"

text \<open>\<^verbatim>\<open>__receive_extra_args\<close>.\<close>

fun receive_extra_args :: "manager \<Rightarrow> nat \<Rightarrow> int list outcome \<times> manager" where
  "receive_extra_args m 0 = (Returned [], m)"
| "receive_extra_args m (Suc n) =
     (case sock_recv m (connected_socket m) 4 of
        (Raised e, m1) \<Rightarrow> (Raised e, m1)
      | (Returned packed_arg, m1) \<Rightarrow>
          (case unpack_i packed_arg of
             None \<Rightarrow> (Raised StructError, m1)
           | Some arg \<Rightarrow>
               (case receive_extra_args m1 n of
                  (Raised e, m2) \<Rightarrow> (Raised e, m2)
                | (Returned args, m2) \<Rightarrow> (Returned (arg # args), m2))))"

text \<open>
  The three ways \<^verbatim>\<open>handshake\<close> returns: \<^verbatim>\<open>False\<close>, \<^verbatim>\<open>None\<close>, or the pair of the
  peer's datatype and the received extra arguments (\<^verbatim>\<open>None\<close> for a Mevea peer).
\<close>

datatype handshake_result = HS_False | HS_None | HS_Done format "int list option"

text \<open>
  The part after the role branches: the datatype sizes and the two frame sizes. A count
  that is still \<^verbatim>\<open>None\<close> makes the multiplication a TypeError.
\<close>

definition handshake_finish ::
  "manager \<Rightarrow> int list option \<Rightarrow> handshake_result outcome \<times> manager" where
  "handshake_finish m recvd_extra_args =
     (case local_output_datatype m of
        None \<Rightarrow> (Raised TypeError, m)
      | Some lf \<Rightarrow>
          (let m1 = m\<lparr>local_datatype_size := Some (calcsize lf)\<rparr>
           in case connected_output_datatype m1 of
                None \<Rightarrow> (Raised TypeError, m1)
              | Some cf \<Rightarrow>
                  (let m2 = m1\<lparr>connected_datatype_size := Some (calcsize cf)\<rparr>
                   in case local_num_outputs m2 of
                        None \<Rightarrow> (Raised TypeError, m2)
                      | Some lno \<Rightarrow>
                          (let m3 = m2\<lparr>send_bytes :=
                                 Some (int (calcsize lf) * lno + int checksum_format_size)\<rparr>
                           in case recvd_num_outputs m3 of
                                None \<Rightarrow> (Raised TypeError, m3)
                              | Some rno \<Rightarrow>
                                  (Returned (HS_Done cf recvd_extra_args),
                                   m3\<lparr>recv_bytes :=
                                     Some (int (calcsize cf) * rno
                                           + int checksum_format_size)\<rparr>)))))"

text \<open>The peer's datatype code: \<^verbatim>\<open>recv(4)\<close>, unpack, choose the format.\<close>

definition receive_datatype :: "manager \<Rightarrow> unit outcome \<times> manager" where
  "receive_datatype m =
     (case sock_recv m (connected_socket m) 4 of
        (Raised e, m1) \<Rightarrow> (Raised e, m1)
      | (Returned packed_datatype, m1) \<Rightarrow>
          (case unpack_i packed_datatype of
             None \<Rightarrow> (Raised StructError, m1)
           | Some connected_datatype_code \<Rightarrow>
               (Returned (),
                m1\<lparr>connected_output_datatype :=
                     Some (if connected_datatype_code = 0 then int_format
                           else double_format)\<rparr>)))"

text \<open>The server branch: receive, validate, then send.\<close>

definition handshake_server ::
  "manager \<Rightarrow> int \<Rightarrow> nat \<Rightarrow> (string \<times> int) list \<Rightarrow> handshake_result outcome \<times> manager" where
  "handshake_server m local_datatype_code num_extra_args kwargs =
     (case sock_recv m (connected_socket m) 12 of
        (Raised e, m1) \<Rightarrow> (Raised e, m1)
      | (Returned packed_handshake, m1) \<Rightarrow>
          (case unpack_iii packed_handshake of
             None \<Rightarrow> (Raised StructError, m1)
           | Some (rid, rout, rin) \<Rightarrow>
               (let m2 = m1\<lparr>recvd_id_number := Some rid, recvd_num_outputs := Some rout,
                            recvd_num_inputs := Some rin\<rparr>;
                    connected_device_name = dict_get id_numbers rid ''Undefined'';
                    inputs_match = (recvd_num_inputs m2 = local_num_outputs m2);
                    outputs_match = (recvd_num_outputs m2 = local_num_inputs m2)
                in if \<not> (inputs_match \<and> outputs_match) then (Returned HS_False, m2)
                   else if connected_device_name = ''Mevea'' then
                     (let m3 = m2\<lparr>local_output_datatype := Some double_format,
                                  connected_output_datatype := Some double_format\<rparr>
                      in case pack_ints [local_id_number m3, local_num_inputs m3,
                                         local_num_outputs m3] of
                           None \<Rightarrow> (Raised StructError, m3)
                         | Some response \<Rightarrow>
                             (case sock_send m3 (connected_socket m3) response None of
                                (Raised e, m4) \<Rightarrow> (Raised e, m4)
                              | (Returned u, m4) \<Rightarrow> handshake_finish m4 None))
                   else
                     (case receive_datatype m2 of
                        (Raised e, m3) \<Rightarrow> (Raised e, m3)
                      | (Returned u, m3) \<Rightarrow>
                          (case receive_extra_args m3 num_extra_args of
                             (Raised e, m4) \<Rightarrow> (Raised e, m4)
                           | (Returned recvd_extra_args, m4) \<Rightarrow>
                               (let extra_args_to_send =
                                      prepare_extra_args kwargs num_extra_args
                                in case pack_ints
                                          ([local_id_number m4, local_num_inputs m4,
                                            local_num_outputs m4, Some local_datatype_code]
                                           @ map Some extra_args_to_send) of
                                     None \<Rightarrow> (Raised StructError, m4)
                                   | Some response \<Rightarrow>
                                       (case sock_send m4 (connected_socket m4) response
                                               None of
                                          (Raised e, m5) \<Rightarrow> (Raised e, m5)
                                        | (Returned u, m5) \<Rightarrow>
                                            handshake_finish m5
                                              (Some recvd_extra_args))))))))"

text \<open>The client branch: send, then receive; the counts arrive as inputs, outputs.\<close>

definition handshake_client ::
  "manager \<Rightarrow> int \<Rightarrow> nat \<Rightarrow> (string \<times> int) list \<Rightarrow> handshake_result outcome \<times> manager" where
  "handshake_client m local_datatype_code num_extra_args kwargs =
     (let extra_args_to_send = prepare_extra_args kwargs num_extra_args
      in case pack_ints ([local_id_number m, local_num_outputs m, local_num_inputs m,
                          Some local_datatype_code] @ map Some extra_args_to_send) of
           None \<Rightarrow> (Raised StructError, m)
         | Some response \<Rightarrow>
             (case sock_send m (local_socket m) response None of
                (Raised e, m1) \<Rightarrow> (Raised e, m1)
              | (Returned u, m1) \<Rightarrow>
                  (case sock_recv m1 (connected_socket m1) 12 of
                     (Raised e, m2) \<Rightarrow> (Raised e, m2)
                   | (Returned packed_handshake, m2) \<Rightarrow>
                       (case unpack_iii packed_handshake of
                          None \<Rightarrow> (Raised StructError, m2)
                        | Some (rid, rin, rout) \<Rightarrow>
                            (let m3 = m2\<lparr>recvd_id_number := Some rid,
                                         recvd_num_inputs := Some rin,
                                         recvd_num_outputs := Some rout\<rparr>;
                                 connected_device_name =
                                   dict_get id_numbers rid ''Undefined''
                             in if connected_device_name = ''Mevea'' then
                                  handshake_finish
                                    (m3\<lparr>local_output_datatype := Some double_format,
                                        connected_output_datatype := Some double_format\<rparr>)
                                    None
                                else
                                  (case receive_datatype m3 of
                                     (Raised e, m4) \<Rightarrow> (Raised e, m4)
                                   | (Returned u, m4) \<Rightarrow>
                                       (case receive_extra_args m4 num_extra_args of
                                          (Raised e, m5) \<Rightarrow> (Raised e, m5)
                                        | (Returned recvd_extra_args, m5) \<Rightarrow>
                                            handshake_finish m5
                                              (Some recvd_extra_args))))))))"

text \<open>\<^verbatim>\<open>handshake\<close>.\<close>

definition handshake ::
  "manager \<Rightarrow> string \<Rightarrow> nat \<Rightarrow> (string \<times> int) list \<Rightarrow> handshake_result outcome \<times> manager" where
  "handshake m local_datatype num_extra_args kwargs =
     (let local_datatype_code = dict_get datatype_encoding local_datatype 1;
          m0 = m\<lparr>local_output_datatype :=
                   Some (if local_datatype_code = 0 then int_format else double_format)\<rparr>
      in if socket_type m0 = Some ''server''
         then handshake_server m0 local_datatype_code num_extra_args kwargs
         else if socket_type m0 = Some ''client''
         then handshake_client m0 local_datatype_code num_extra_args kwargs
         else (Returned HS_None, m0))"

section \<open>Concrete states used in the witnesses\<close>

text \<open>A receiver whose slot holds nine bytes that are not a valid frame.\<close>

definition stale :: manager where
  "stale = init\<lparr>connected_output_datatype := Some Fmt_d, connected_datatype_size := Some 8,
     recv_bytes := Some 9, latest_recvd := Some [1, 2, 3, 4, 5, 6, 7, 8, 9]\<rparr>"

text \<open>A datagram-mode server expecting nine-byte frames, its slot empty.\<close>

definition idle :: manager where
  "idle = init\<lparr>socket_type := Some ''server'', network_protocol := Some ''udp'',
     connected_output_datatype := Some Fmt_d, connected_datatype_size := Some 8,
     recv_bytes := Some 9\<rparr>"

text \<open>
  Flipping one bit of a frame: bit \<open>pos mod 8\<close> of byte \<open>pos div 8\<close>.
\<close>

definition flip_frame_bit :: "bytes \<Rightarrow> nat \<Rightarrow> bytes" where
  "flip_frame_bit frame pos =
     frame[pos div 8 := flip_bit (pos mod 8) (frame ! (pos div 8))]"

text \<open>A receiver whose slot holds a valid nine-byte frame with bit 3 flipped.\<close>

definition corrupted :: manager where
  "corrupted = init\<lparr>connected_output_datatype := Some Fmt_d,
     connected_datatype_size := Some 8, recv_bytes := Some 9,
     latest_recvd := Some (flip_frame_bit (add_checksum [1, 2, 3, 4, 5, 6, 7, 8]) 3)\<rparr>"

section \<open>Properties of the cached-frame decoder\<close>

lemma get_latest_received_cases:
  "get_latest_received m = (None, m) \<or>
   (\<exists>vs. get_latest_received m = (Some vs, m\<lparr>latest_recvd := None\<rparr>))"
  unfolding get_latest_received_def Let_def
  by (simp split: option.split)

lemma get_latest_received_None_unchanged:
  "fst (get_latest_received m) = None \<Longrightarrow> snd (get_latest_received m) = m"
  using get_latest_received_cases [of m] by auto

lemma get_latest_received_Some_clears:
  "fst (get_latest_received m) = Some vs \<Longrightarrow>
   snd (get_latest_received m) = m\<lparr>latest_recvd := None\<rparr>"
  using get_latest_received_cases [of m] by auto

lemma get_latest_received_checksum_mismatch:
  "latest_recvd m = Some d \<Longrightarrow>
   unpack_checksum (last_n d checksum_format_size)
     \<noteq> Some (compute_checksum (but_last_n d checksum_format_size)) \<Longrightarrow>
   get_latest_received m = (None, m)"
  unfolding get_latest_received_def Let_def
  by (simp split: option.split)

lemma get_latest_received_misaligned:
  "latest_recvd m = Some d \<Longrightarrow> connected_datatype_size m = Some sz \<Longrightarrow>
   (length d - checksum_format_size) mod sz \<noteq> 0 \<Longrightarrow>
   get_latest_received m = (None, m)"
  unfolding get_latest_received_def Let_def
  by (simp split: option.split)

lemma get_latest_received_unpack_error:
  "latest_recvd m = Some d \<Longrightarrow> connected_datatype_size m = Some sz \<Longrightarrow>
   decode_chunks (connected_output_datatype m) sz d (length d - checksum_format_size) = None \<Longrightarrow>
   get_latest_received m = (None, m)"
  unfolding get_latest_received_def Let_def
  by (simp split: option.split)

text \<open>
  Claim C10. When decoding the cached value fails, \<^verbatim>\<open>get_latest_received\<close> returns
  no value and leaves the manager, and so the stored slot, unchanged: this holds whenever
  the result is \<^verbatim>\<open>None\<close>, and in particular on a checksum mismatch, on a payload
  length that is not a multiple of the element width, and on an unpack exception. The
  slot changes only when a decoded array is returned, and then it is cleared.
\<close>

theorem failed_decode_keeps_slot:
  "(fst (get_latest_received m) = None \<longrightarrow> snd (get_latest_received m) = m)
   \<and> (\<forall>d. latest_recvd m = Some d
          \<and> unpack_checksum (last_n d checksum_format_size)
              \<noteq> Some (compute_checksum (but_last_n d checksum_format_size))
        \<longrightarrow> get_latest_received m = (None, m))
   \<and> (\<forall>d sz. latest_recvd m = Some d \<and> connected_datatype_size m = Some sz
          \<and> (length d - checksum_format_size) mod sz \<noteq> 0
        \<longrightarrow> get_latest_received m = (None, m))
   \<and> (\<forall>d sz. latest_recvd m = Some d \<and> connected_datatype_size m = Some sz
          \<and> decode_chunks (connected_output_datatype m) sz d
               (length d - checksum_format_size) = None
        \<longrightarrow> get_latest_received m = (None, m))
   \<and> (latest_recvd (snd (get_latest_received m)) \<noteq> latest_recvd m
        \<longrightarrow> (\<exists>vs. fst (get_latest_received m) = Some vs)
            \<and> latest_recvd (snd (get_latest_received m)) = None)"
proof (intro conjI allI impI)
  assume "fst (get_latest_received m) = None"
  then show "snd (get_latest_received m) = m"
    by (rule get_latest_received_None_unchanged)
next
  fix d
  assume "latest_recvd m = Some d
          \<and> unpack_checksum (last_n d checksum_format_size)
              \<noteq> Some (compute_checksum (but_last_n d checksum_format_size))"
  then show "get_latest_received m = (None, m)"
    using get_latest_received_checksum_mismatch by blast
next
  fix d sz
  assume "latest_recvd m = Some d \<and> connected_datatype_size m = Some sz
          \<and> (length d - checksum_format_size) mod sz \<noteq> 0"
  then show "get_latest_received m = (None, m)"
    using get_latest_received_misaligned by blast
next
  fix d sz
  assume "latest_recvd m = Some d \<and> connected_datatype_size m = Some sz
          \<and> decode_chunks (connected_output_datatype m) sz d
               (length d - checksum_format_size) = None"
  then show "get_latest_received m = (None, m)"
    using get_latest_received_unpack_error by blast
next
  assume a: "latest_recvd (snd (get_latest_received m)) \<noteq> latest_recvd m"
  from get_latest_received_cases [of m] a
  show "\<exists>vs. fst (get_latest_received m) = Some vs" by auto
next
  assume a: "latest_recvd (snd (get_latest_received m)) \<noteq> latest_recvd m"
  from get_latest_received_cases [of m] a
  show "latest_recvd (snd (get_latest_received m)) = None" by auto
qed

lemma stale_slot: "latest_recvd stale = Some [1, 2, 3, 4, 5, 6, 7, 8, 9]"
  by (simp add: stale_def)

lemma stale_mismatch:
  "unpack_checksum (last_n [1, 2, 3, 4, 5, 6, 7, 8, 9 :: byte] checksum_format_size)
     \<noteq> Some (compute_checksum (but_last_n [1, 2, 3, 4, 5, 6, 7, 8, 9] checksum_format_size))"
  by (simp add: checksum_format_size_def last_n_def but_last_n_def compute_checksum_def)

theorem failed_decode_keeps_slot_witness:
  "latest_recvd stale = Some [1, 2, 3, 4, 5, 6, 7, 8, 9]
   \<and> unpack_checksum (last_n [1, 2, 3, 4, 5, 6, 7, 8, 9 :: byte] checksum_format_size)
        \<noteq> Some (compute_checksum (but_last_n [1, 2, 3, 4, 5, 6, 7, 8, 9] checksum_format_size))
   \<and> get_latest_received stale = (None, stale)"
  using failed_decode_keeps_slot [of stale] stale_slot stale_mismatch by blast

section \<open>Properties of the receive path\<close>

lemma receive_data_wrong_length:
  "recv_bytes m \<noteq> Some (int (length data)) \<Longrightarrow>
   fst (receive_data m (Delivered data sender)) = None"
  unfolding receive_data_def Let_def
  by (simp split: option.split)

lemma receive_data_keeps_slot:
  "latest_recvd (snd (receive_data m ev)) = latest_recvd m"
  unfolding receive_data_def Let_def
  by (simp split: option.split recv_event.split)

lemma receive_data_Some:
  "fst (receive_data m ev) = Some d \<Longrightarrow>
   (\<exists>sender. ev = Delivered d sender) \<and> recv_bytes m = Some (int (length d)) \<and> d \<noteq> []"
  unfolding receive_data_def Let_def
  by (simp split: option.splits recv_event.splits if_splits)

lemma receiver_step_wrong_length:
  "recv_bytes m \<noteq> Some (int (length data)) \<Longrightarrow>
   latest_recvd (continuous_data_receiver_step m (Delivered data sender)) = latest_recvd m"
  using receive_data_wrong_length [of m data sender]
    receive_data_keeps_slot [of m "Delivered data sender"]
  unfolding continuous_data_receiver_step_def
  by (cases "receive_data m (Delivered data sender)") simp

text \<open>
  Claim C5. A received byte sequence whose length differs from the inbound frame size
  \<open>recv_bytes\<close> (which the handshake computed as element count times element width plus
  one checksum byte) is reported as no value: \<^verbatim>\<open>__receive_data\<close> returns
  \<^verbatim>\<open>None\<close>, the receiver loop leaves the slot as it was, and a get on a slot that was
  empty returns no value. Only a byte sequence of exactly that length is handed on.
\<close>

theorem wrong_length_is_dropped:
  "(recv_bytes m \<noteq> Some (int (length data)) \<longrightarrow>
      fst (receive_data m (Delivered data sender)) = None
      \<and> latest_recvd (continuous_data_receiver_step m (Delivered data sender)) = latest_recvd m
      \<and> (latest_recvd m = None \<longrightarrow>
           fst (get_latest_received
                  (continuous_data_receiver_step m (Delivered data sender))) = None))
   \<and> (\<forall>d. fst (receive_data m ev) = Some d \<longrightarrow>
          (\<exists>a. ev = Delivered d a) \<and> recv_bytes m = Some (int (length d)))"
proof (intro conjI allI impI)
  assume a: "recv_bytes m \<noteq> Some (int (length data))"
  then show "fst (receive_data m (Delivered data sender)) = None"
    by (rule receive_data_wrong_length)
next
  assume a: "recv_bytes m \<noteq> Some (int (length data))"
  then show "latest_recvd (continuous_data_receiver_step m (Delivered data sender))
             = latest_recvd m"
    by (rule receiver_step_wrong_length)
next
  assume a: "recv_bytes m \<noteq> Some (int (length data))" and e: "latest_recvd m = None"
  from a have "latest_recvd (continuous_data_receiver_step m (Delivered data sender)) = None"
    using receiver_step_wrong_length e by simp
  then show "fst (get_latest_received
                  (continuous_data_receiver_step m (Delivered data sender))) = None"
    by (simp add: get_latest_received_def)
next
  fix d assume "fst (receive_data m ev) = Some d"
  then show "\<exists>a. ev = Delivered d a" using receive_data_Some by blast
next
  fix d assume "fst (receive_data m ev) = Some d"
  then show "recv_bytes m = Some (int (length d))" using receive_data_Some by blast
qed

lemma idle_recv_bytes: "recv_bytes idle = Some 9"
  by (simp add: idle_def)

lemma idle_slot: "latest_recvd idle = None"
  by (simp add: idle_def init_def)

lemma idle_accepts:
  "fst (receive_data idle (Delivered [1, 2, 3, 4, 5, 6, 7, 8, 9] (''10.0.0.7'', 5111)))
   = Some [1, 2, 3, 4, 5, 6, 7, 8, 9]"
  by (simp add: receive_data_def idle_def init_def)

theorem wrong_length_is_dropped_witness:
  "recv_bytes idle \<noteq> Some (int (length [1, 2 :: byte]))
   \<and> latest_recvd idle = None
   \<and> fst (receive_data idle (Delivered [1, 2] (''10.0.0.7'', 5111))) = None
   \<and> latest_recvd (continuous_data_receiver_step idle (Delivered [1, 2] (''10.0.0.7'', 5111)))
       = None
   \<and> fst (get_latest_received
            (continuous_data_receiver_step idle (Delivered [1, 2] (''10.0.0.7'', 5111)))) = None
   \<and> fst (receive_data idle (Delivered [1, 2, 3, 4, 5, 6, 7, 8, 9] (''10.0.0.7'', 5111)))
       = Some [1, 2, 3, 4, 5, 6, 7, 8, 9]
   \<and> recv_bytes idle = Some (int (length [1, 2, 3, 4, 5, 6, 7, 8, 9 :: byte]))"
  using wrong_length_is_dropped [of idle "[1, 2]" "(''10.0.0.7'', 5111)"
      "Delivered [1, 2, 3, 4, 5, 6, 7, 8, 9] (''10.0.0.7'', 5111)"]
    idle_recv_bytes idle_slot idle_accepts
  by simp

section \<open>Properties of the codec\<close>

lemma bit_from_le_bytes:
  "bit (from_le_bytes bs :: 'a::len word) n \<longleftrightarrow>
     n < LENGTH('a) \<and> n div 8 < length bs \<and> bit (bs ! (n div 8)) (n mod 8)"
  using bit_horner_sum_uint_exp_iff [where ?'a = 8, of bs n]
  by (simp add: from_le_bytes_def bit_word_of_int_iff)

lemma from_le_bytes_le_bytes64: "from_le_bytes (le_bytes 8 w) = (w :: 64 word)"
proof (rule bit_word_eqI)
  fix n assume n: "n < LENGTH(64)"
  then have d: "n div 8 < 8" by simp
  have "8 * (n div 8) + n mod 8 = n" by simp
  with n d show "bit (from_le_bytes (le_bytes 8 w) :: 64 word) n = bit w n"
    by (simp add: bit_from_le_bytes le_bytes_def bit_ucast_iff bit_drop_bit_eq) arith
qed

lemma length_le_bytes [simp]: "length (le_bytes n w) = n"
  by (simp add: le_bytes_def)

lemma fold_xor_acc:
  "fold (\<lambda>byte checksum. checksum XOR byte) xs (a :: byte) = a XOR compute_checksum xs"
proof (induction xs arbitrary: a)
  case Nil
  show ?case by (simp add: compute_checksum_def)
next
  case (Cons x xs)
  have "fold (\<lambda>byte checksum. checksum XOR byte) (x # xs) a = (a XOR x) XOR compute_checksum xs"
    using Cons.IH [of "a XOR x"] by simp
  moreover have "compute_checksum (x # xs) = x XOR compute_checksum xs"
    using Cons.IH [of "x"] by (simp add: compute_checksum_def)
  ultimately show ?case by (simp add: xor.assoc)
qed

lemma compute_checksum_Nil [simp]: "compute_checksum [] = 0"
  by (simp add: compute_checksum_def)

lemma compute_checksum_Cons: "compute_checksum (x # xs) = x XOR compute_checksum xs"
  using fold_xor_acc [of xs x] by (simp add: compute_checksum_def)

lemma compute_checksum_update:
  "i < length xs \<Longrightarrow> compute_checksum (xs[i := xs ! i XOR d]) = compute_checksum xs XOR d"
proof (induction xs arbitrary: i)
  case Nil
  then show ?case by simp
next
  case (Cons x xs)
  show ?case
  proof (cases i)
    case 0
    then show ?thesis
      by (simp add: compute_checksum_Cons xor.assoc xor.commute xor.left_commute)
  next
    case (Suc j)
    with Cons show ?thesis by (simp add: compute_checksum_Cons xor.assoc)
  qed
qed

lemma last_n_snoc [simp]: "last_n (p @ [c]) checksum_format_size = [c]"
  by (simp add: last_n_def checksum_format_size_def)

lemma but_last_n_snoc [simp]: "but_last_n (p @ [c]) checksum_format_size = p"
  by (simp add: but_last_n_def checksum_format_size_def)

lemma flip_nonzero: "k < 8 \<Longrightarrow> (push_bit k 1 :: byte) \<noteq> 0"
  by (simp add: push_bit_eq_0_iff)

lemma xor_flip_neq: "k < 8 \<Longrightarrow> (c :: byte) XOR push_bit k 1 \<noteq> c"
proof
  assume k: "k < 8" and e: "c XOR push_bit k 1 = c"
  have "c XOR (c XOR push_bit k 1) = c XOR c" using e by simp
  then have "(push_bit k 1 :: byte) = 0" by (simp add: xor.assoc [symmetric])
  with flip_nonzero [OF k] show False by simp
qed

lemma flipped_frame_mismatch:
  assumes "pos < 8 * length (add_checksum packed_data)"
  shows "unpack_checksum (last_n (flip_frame_bit (add_checksum packed_data) pos)
                            checksum_format_size)
         \<noteq> Some (compute_checksum
                    (but_last_n (flip_frame_bit (add_checksum packed_data) pos)
                       checksum_format_size))"
proof -
  let ?c = "compute_checksum packed_data"
  let ?i = "pos div 8"
  let ?d = "push_bit (pos mod 8) 1 :: byte"
  have k: "pos mod 8 < 8" by simp
  have i: "?i \<le> length packed_data"
    using assms by (simp add: add_checksum_def) 
  show ?thesis
  proof (cases "?i < length packed_data")
    case True
    then have "flip_frame_bit (add_checksum packed_data) pos
               = packed_data[?i := packed_data ! ?i XOR ?d] @ [?c]"
      by (simp add: flip_frame_bit_def add_checksum_def list_update_append nth_append
          flip_bit_eq_xor)
    moreover have "compute_checksum (packed_data[?i := packed_data ! ?i XOR ?d]) = ?c XOR ?d"
      using True by (rule compute_checksum_update)
    ultimately show ?thesis
      using xor_flip_neq [OF k, of ?c] by (simp del: push_bit_of_1)
  next
    case False
    with i have e: "?i = length packed_data" by simp
    then have "flip_frame_bit (add_checksum packed_data) pos = packed_data @ [?c XOR ?d]"
      by (simp add: flip_frame_bit_def add_checksum_def list_update_append nth_append
          flip_bit_eq_xor)
    then show ?thesis
      using xor_flip_neq [OF k, of ?c] by (simp del: push_bit_of_1)
  qed
qed

text \<open>
  Claim C3. For every frame built by \<^verbatim>\<open>_add_checksum\<close> (any payload followed by its
  exclusive-or checksum) and every single bit position in it, payload or checksum byte,
  decoding the frame with that one bit flipped reports no value: the recomputed checksum
  differs from the trailer, \<^verbatim>\<open>get_latest_received\<close> returns \<^verbatim>\<open>None\<close> and no
  partial array.
\<close>

theorem single_bit_flip_is_rejected:
  assumes "pos < 8 * length (add_checksum packed_data)"
    and "latest_recvd m = Some (flip_frame_bit (add_checksum packed_data) pos)"
  shows "get_latest_received m = (None, m)"
  using assms(2) flipped_frame_mismatch [OF assms(1)]
  by (rule get_latest_received_checksum_mismatch)

lemma corrupted_slot:
  "latest_recvd corrupted = Some (flip_frame_bit (add_checksum [1, 2, 3, 4, 5, 6, 7, 8]) 3)"
  by (simp add: corrupted_def)

theorem single_bit_flip_is_rejected_witness:
  "(3 :: nat) < 8 * length (add_checksum [1, 2, 3, 4, 5, 6, 7, 8])
   \<and> latest_recvd corrupted = Some (flip_frame_bit (add_checksum [1, 2, 3, 4, 5, 6, 7, 8]) 3)
   \<and> get_latest_received corrupted = (None, corrupted)"
  using single_bit_flip_is_rejected [of 3 "[1, 2, 3, 4, 5, 6, 7, 8]" corrupted] corrupted_slot
  by (simp add: add_checksum_def)

end
